theory Spec2Isabelle
  imports Complex_Main "HOL-Library.Sublist"
begin

section \<open>The caption and audio service (yt-dlp/app.py)\<close>

subsection \<open>Resolving a video identifier: \<open>extract_video_id\<close>\<close>

text \<open>
  URLs are Python \<open>str\<close> values. Every pattern of \<open>extract_video_id\<close> is made of ASCII
  characters only, and no byte of a multi-byte UTF-8 sequence is an ASCII character, so
  matching over the bytes of the URL finds the same groups as matching over its code
  points: URLs are modelled as \<open>string\<close>.
\<close>

text \<open>The character class \<^verbatim>\<open>[a-zA-Z0-9_-]\<close>.\<close>

definition id_char :: "char \<Rightarrow> bool" where
  "id_char c =
     (let n = (of_char c :: nat)
      in (97 \<le> n \<and> n \<le> 122) \<or> (65 \<le> n \<and> n \<le> 90) \<or> (48 \<le> n \<and> n \<le> 57)
         \<or> c = CHR ''_'' \<or> c = CHR ''-'')"

text \<open>The capturing group \<^verbatim>\<open>([a-zA-Z0-9_-]{11})\<close> matched at the start of a string:
  exactly eleven characters of the class, which are the value of the group.\<close>

definition id_group :: "string \<Rightarrow> string option" where
  "id_group s =
     (if 11 \<le> length s \<and> list_all id_char (take 11 s) then Some (take 11 s) else None)"

text \<open>A literal matched at the start of a string; the result is the rest of the string.\<close>

fun literal :: "string \<Rightarrow> string \<Rightarrow> string option" where
  "literal [] s = Some s"
| "literal (p # ps) [] = None"
| "literal (p # ps) (c # cs) = (if p = c then literal ps cs else None)"

text \<open>
  A non-capturing alternation of literals followed by the group, matched at the start of
  a string: the alternatives are tried in the order written, and the matcher backtracks
  to the next alternative when the group fails after one of them.
\<close>

fun alternation :: "string list \<Rightarrow> string \<Rightarrow> string option" where
  "alternation [] s = None"
| "alternation (p # ps) s =
     (case Option.bind (literal p s) id_group of
        Some g \<Rightarrow> Some g
      | None \<Rightarrow> alternation ps s)"

text \<open>\<^verbatim>\<open>re.search\<close> for an unanchored pattern: the leftmost position where the pattern
  matches, the end of the string included.\<close>

fun re_search :: "(string \<Rightarrow> string option) \<Rightarrow> string \<Rightarrow> string option" where
  "re_search m [] = m []"
| "re_search m (c # cs) =
     (case m (c # cs) of
        Some g \<Rightarrow> Some g
      | None \<Rightarrow> re_search m cs)"

text \<open>
  The third pattern, \<^verbatim>\<open>^([a-zA-Z0-9_-]{11})$\<close>. Without \<^verbatim>\<open>re.MULTILINE\<close> the
  anchor \<^verbatim>\<open>^\<close> matches at position 0 only, and \<^verbatim>\<open>$\<close> matches at the end of the
  string or just before a newline that ends the string.
\<close>

definition bare_token :: "string \<Rightarrow> string option" where
  "bare_token s =
     (case id_group s of
        Some g \<Rightarrow> (if drop 11 s = [] \<or> drop 11 s = [CHR 0x0A] then Some g else None)
      | None \<Rightarrow> None)"

definition patterns :: "(string \<Rightarrow> string option) list" where
  "patterns =
     [re_search (alternation [''v='', ''/v/'', ''youtu.be/'']),
      re_search (alternation [''embed/'']),
      bare_token]"

text \<open>The loop \<^verbatim>\<open>for pattern in patterns\<close>: the group of the first pattern that matches.\<close>

fun first_match :: "(string \<Rightarrow> string option) list \<Rightarrow> string \<Rightarrow> string option" where
  "first_match [] url = None"
| "first_match (p # ps) url =
     (case p url of
        Some g \<Rightarrow> Some g
      | None \<Rightarrow> first_match ps url)"

datatype yt_exn =
    ValueError string
  | HTTPException nat string
  | TimeoutExpired
  | OSError string

definition extract_video_id :: "string \<Rightarrow> yt_exn + string" where
  "extract_video_id url =
     (case first_match patterns url of
        Some g \<Rightarrow> Inr g
      | None \<Rightarrow> Inl (ValueError (''Could not extract video ID from: '' @ url)))"

text \<open>
  Two notions for stating what \<open>extract_video_id\<close> finds, written with \<open>prefix\<close>,
  \<open>take\<close> and \<open>drop\<close> rather than with the matcher above. \<open>token_follows m s\<close>: the
  string \<open>s\<close> starts with the marker \<open>m\<close> followed by eleven characters of the class.
  \<open>no_earlier_token ms pre s\<close>: in the string \<open>pre @ s\<close>, at no position inside \<open>pre\<close>
  does a marker of \<open>ms\<close> start that is followed by eleven characters of the class.
\<close>

definition token_follows :: "string \<Rightarrow> string \<Rightarrow> bool" where
  "token_follows m s \<longleftrightarrow>
     prefix m s \<and> 11 \<le> length s - length m \<and> list_all id_char (take 11 (drop (length m) s))"

definition no_earlier_token :: "string list \<Rightarrow> string \<Rightarrow> string \<Rightarrow> bool" where
  "no_earlier_token ms pre s \<longleftrightarrow>
     (\<forall>i<length pre. \<forall>m\<in>set ms. \<not> token_follows m (drop i (pre @ s)))"

subsection \<open>The filesystem, the \<^verbatim>\<open>yt-dlp\<close> executable and \<^verbatim>\<open>subprocess.run\<close>\<close>

text \<open>
  The filesystem maps a path to the text of the file stored there. The executable is a
  parameter of the model: given the command line, the timeout and the filesystem, it
  decides how the invocation ends and what the filesystem holds afterwards. The world
  also records every invocation made, with its timeout in seconds.
\<close>

type_synonym fs = "string \<rightharpoonup> string"

datatype completed = CompletedProcess (returncode: int) (stdout: string) (stderr: string)

datatype proc_outcome =
    Exited completed
  | TimedOut
  | NotStarted string

type_synonym capability = "string list \<Rightarrow> nat \<Rightarrow> fs \<Rightarrow> proc_outcome \<times> fs"

record world =
  files :: fs
  calls :: "(string list \<times> nat) list"

definition path_exists :: "world \<Rightarrow> string \<Rightarrow> bool" where
  "path_exists w p = (files w p \<noteq> None)"

text \<open>
  \<^verbatim>\<open>subprocess.run(cmd, capture_output=True, text=True, timeout=t)\<close>: returns the
  completed process whatever its exit status (\<^verbatim>\<open>check\<close> is not set), raises
  \<^verbatim>\<open>TimeoutExpired\<close> when the timeout passes and \<^verbatim>\<open>OSError\<close> when the process
  cannot be started.
\<close>

definition subprocess_run ::
  "capability \<Rightarrow> string list \<Rightarrow> nat \<Rightarrow> world \<Rightarrow> (yt_exn + completed) \<times> world" where
  "subprocess_run cap cmd timeout w =
     (case cap cmd timeout (files w) of
        (outcome, fs') \<Rightarrow>
          ((case outcome of
              Exited r \<Rightarrow> Inr r
            | TimedOut \<Rightarrow> Inl TimeoutExpired
            | NotStarted msg \<Rightarrow> Inl (OSError msg)),
           w\<lparr>files := fs', calls := calls w @ [(cmd, timeout)]\<rparr>))"

subsection \<open>The transcript endpoint: \<open>extract_youtube_transcript\<close>\<close>

record YouTubeRequest =
  url :: string
  req_language :: string
  prefer_manual :: bool

record YouTubeResponse =
  success :: bool
  video_id :: string
  title :: "string option"
  transcript :: "string option"
  source :: "string option"
  language :: string
  duration :: "int option"
  error :: "string option"

text \<open>
  What the endpoint takes from its surroundings:
  \<^item> \<open>run\<close>, the \<^verbatim>\<open>yt-dlp\<close> executable;
  \<^item> \<open>json_info\<close>, for \<^verbatim>\<open>json.loads(stdout)\<close> followed by \<^verbatim>\<open>info.get("title")\<close> and
    \<^verbatim>\<open>info.get("duration")\<close>: \<open>None\<close> when one of them raises, and otherwise the two
    fields, each absent or of the type the response declares;
  \<^item> \<open>temp_dir\<close>, the name of the directory that \<^verbatim>\<open>tempfile.TemporaryDirectory()\<close>
    creates for the request;
  \<^item> \<open>clean_vtt_content\<close>, imported from \<^verbatim>\<open>utils/vtt_cleaner.py\<close>, a module that is not
    among the sources at hand: the endpoint is modelled for any such function from the
    text of a caption file to a transcript.
\<close>

record yt_env =
  run :: capability
  json_info :: "string \<Rightarrow> (string option \<times> int option) option"
  temp_dir :: string
  clean_vtt_content :: "string \<Rightarrow> string"

definition watch_url :: "string \<Rightarrow> string" where
  "watch_url vid = ''https://www.youtube.com/watch?v='' @ vid"

text \<open>Title and duration: any exception of this block is swallowed (\<^verbatim>\<open>except Exception: pass\<close>).\<close>

definition fetch_metadata ::
  "yt_env \<Rightarrow> string \<Rightarrow> world \<Rightarrow> (string option \<times> int option) \<times> world" where
  "fetch_metadata env video_url w =
     (case subprocess_run (run env) [''yt-dlp'', ''--dump-json'', ''--no-download'', video_url] 30 w of
        (Inr info_result, w') \<Rightarrow>
          (if returncode info_result = 0
           then (case json_info env (stdout info_result) of
                   Some td \<Rightarrow> td
                 | None \<Rightarrow> (None, None))
           else (None, None), w')
      | (Inl e, w') \<Rightarrow> ((None, None), w'))"

text \<open>\<^verbatim>\<open>os.path.join(a, b)\<close> of \<^verbatim>\<open>posixpath\<close>, for two components.\<close>

definition os_path_join :: "string \<Rightarrow> string \<Rightarrow> string" where
  "os_path_join a b =
     (if b \<noteq> [] \<and> hd b = CHR ''/'' then b
      else if a = [] \<or> last a = CHR ''/'' then a @ b
      else a @ ''/'' @ b)"

definition cmd_manual :: "string \<Rightarrow> string \<Rightarrow> string \<Rightarrow> string list" where
  "cmd_manual lang output_template video_url =
     [''yt-dlp'', ''--write-sub'', ''--sub-lang'', lang, ''--sub-format'', ''vtt'',
      ''--skip-download'', ''-o'', output_template, video_url]"

definition cmd_auto :: "string \<Rightarrow> string \<Rightarrow> string \<Rightarrow> string list" where
  "cmd_auto lang output_template video_url =
     [''yt-dlp'', ''--write-auto-sub'', ''--sub-lang'', lang, ''--sub-format'', ''vtt'',
      ''--skip-download'', ''-o'', output_template, video_url]"

definition vtt_file :: "string \<Rightarrow> string \<Rightarrow> string" where
  "vtt_file output_template lang = output_template @ ''.'' @ lang @ ''.vtt''"

text \<open>The second half of the \<^verbatim>\<open>with\<close> block, from \<^verbatim>\<open># Try auto-generated subtitles\<close> on.\<close>

definition auto_captions ::
  "yt_env \<Rightarrow> YouTubeRequest \<Rightarrow> string \<Rightarrow> string option \<Rightarrow> int option \<Rightarrow> world
     \<Rightarrow> (yt_exn + YouTubeResponse) \<times> world" where
  "auto_captions env request vid ttl dur w =
     (let output_template = os_path_join (temp_dir env) ''subs''
      in case subprocess_run (run env)
                (cmd_auto (req_language request) output_template (watch_url vid)) 120 w of
           (Inl e, w') \<Rightarrow> (Inl e, w')
         | (Inr r, w') \<Rightarrow>
             (case files w' (vtt_file output_template (req_language request)) of
                Some vtt_content \<Rightarrow>
                  (Inr \<lparr>success = True, video_id = vid, title = ttl,
                        transcript = Some (clean_vtt_content env vtt_content),
                        source = Some ''auto-generated'', language = req_language request,
                        duration = dur, error = None\<rparr>, w')
              | None \<Rightarrow>
                  (Inr \<lparr>success = False, video_id = vid, title = ttl, transcript = None,
                        source = None, language = req_language request, duration = dur,
                        error = Some ''No subtitles available. Use whisper-server for audio transcription.''\<rparr>,
                   w')))"

text \<open>The body of the \<^verbatim>\<open>with\<close> block.\<close>

definition captions ::
  "yt_env \<Rightarrow> YouTubeRequest \<Rightarrow> string \<Rightarrow> string option \<Rightarrow> int option \<Rightarrow> world
     \<Rightarrow> (yt_exn + YouTubeResponse) \<times> world" where
  "captions env request vid ttl dur w =
     (let output_template = os_path_join (temp_dir env) ''subs''
      in if prefer_manual request
         then (case subprocess_run (run env)
                      (cmd_manual (req_language request) output_template (watch_url vid)) 120 w of
                 (Inl e, w') \<Rightarrow> (Inl e, w')
               | (Inr r, w') \<Rightarrow>
                   (case files w' (vtt_file output_template (req_language request)) of
                      Some vtt_content \<Rightarrow>
                        (Inr \<lparr>success = True, video_id = vid, title = ttl,
                              transcript = Some (clean_vtt_content env vtt_content),
                              source = Some ''manual'', language = req_language request,
                              duration = dur, error = None\<rparr>, w')
                    | None \<Rightarrow> auto_captions env request vid ttl dur w'))
         else auto_captions env request vid ttl dur w)"

text \<open>Leaving the \<^verbatim>\<open>with\<close> block, by a return or by an exception, removes the directory
  and all it holds.\<close>

definition rmtree :: "string \<Rightarrow> fs \<Rightarrow> fs" where
  "rmtree d fs = (\<lambda>p. if prefix (d @ ''/'') p then None else fs p)"

definition extract_youtube_transcript ::
  "yt_env \<Rightarrow> YouTubeRequest \<Rightarrow> world \<Rightarrow> (yt_exn + YouTubeResponse) \<times> world" where
  "extract_youtube_transcript env request w =
     (case extract_video_id (url request) of
        Inl (ValueError msg) \<Rightarrow>
          (Inr \<lparr>success = False, video_id = [], title = None, transcript = None,
                source = None, language = req_language request, duration = None,
                error = Some msg\<rparr>, w)
      | Inl e \<Rightarrow> (Inl e, w)
      | Inr vid \<Rightarrow>
          (case fetch_metadata env (watch_url vid) w of
             ((ttl, dur), w1) \<Rightarrow>
               (case captions env request vid ttl dur w1 of
                  (r, w2) \<Rightarrow> (r, w2\<lparr>files := rmtree (temp_dir env) (files w2)\<rparr>))))"

subsection \<open>The audio endpoint: \<open>download_youtube_audio\<close>\<close>

text \<open>\<^verbatim>\<open>str.replace(old, new)\<close>: every occurrence of \<open>old\<close>, left to right and without
  overlap; an empty \<open>old\<close> matches before every character and at the end.\<close>

function py_replace :: "string \<Rightarrow> string \<Rightarrow> string \<Rightarrow> string" where
  "py_replace old new [] = (if old = [] then new else [])"
| "py_replace old new (c # cs) =
     (if old = [] then new @ c # py_replace old new cs
      else if prefix old (c # cs) then new @ py_replace old new (drop (length old) (c # cs))
      else c # py_replace old new cs)"
  by pat_completeness auto
termination
  by (relation "measure (\<lambda>(old, new, s). length s)") auto

text \<open>The dictionary the endpoint returns, in the order of its keys.\<close>

datatype pyval = Bool bool | Str string

definition output_path_of :: "string \<Rightarrow> string" where
  "output_path_of vid = ''/app/temp/'' @ vid @ ''.mp3''"

definition audio_cmd :: "string \<Rightarrow> string list" where
  "audio_cmd vid =
     [''yt-dlp'', ''-x'', ''--audio-format'', ''mp3'',
      ''-o'', py_replace ''.mp3'' ''.%(ext)s'' (output_path_of vid), watch_url vid]"

definition audio_result :: "string \<Rightarrow> bool \<Rightarrow> (string \<times> pyval) list" where
  "audio_result vid hit =
     [(''success'', Bool True), (''audio_path'', Str (output_path_of vid)),
      (''video_id'', Str vid), (''cached'', Bool hit)]"

definition download_youtube_audio ::
  "capability \<Rightarrow> string \<Rightarrow> world \<Rightarrow> (yt_exn + (string \<times> pyval) list) \<times> world" where
  "download_youtube_audio cap u w =
     (case extract_video_id u of
        Inl (ValueError msg) \<Rightarrow> (Inl (HTTPException 400 msg), w)
      | Inl e \<Rightarrow> (Inl e, w)
      | Inr vid \<Rightarrow>
          (if path_exists w (output_path_of vid) then (Inr (audio_result vid True), w)
           else (case subprocess_run cap (audio_cmd vid) 300 w of
                   (Inl TimeoutExpired, w') \<Rightarrow>
                     (Inl (HTTPException 504 ''Timeout downloading audio''), w')
                 | (Inl e, w') \<Rightarrow> (Inl e, w')
                 | (Inr r, w') \<Rightarrow>
                     (if returncode r \<noteq> 0
                      then (Inl (HTTPException 500 (''yt-dlp error: '' @ stderr r)), w')
                      else if path_exists w' (output_path_of vid)
                      then (Inr (audio_result vid False), w')
                      else (Inl (HTTPException 500 ''Audio file not created''), w')))))"

section \<open>The transcription service (whisper/app.py)\<close>

subsection \<open>Strings of the recognised text\<close>

text \<open>
  \<^verbatim>\<open>str.strip()\<close> removes Unicode white space, so the text of a segment is modelled as
  the list of its code points. \<open>py_isspace\<close> is \<^verbatim>\<open>str.isspace\<close> on one code point.
\<close>

type_synonym pystr = "nat list"

definition py_isspace :: "nat \<Rightarrow> bool" where
  "py_isspace c =
     ((9 \<le> c \<and> c \<le> 13) \<or> (28 \<le> c \<and> c \<le> 32) \<or> c = 133 \<or> c = 160 \<or> c = 5760
      \<or> (8192 \<le> c \<and> c \<le> 8202) \<or> c = 8232 \<or> c = 8233 \<or> c = 8239 \<or> c = 8287
      \<or> c = 12288)"

definition py_strip :: "pystr \<Rightarrow> pystr" where
  "py_strip s = rev (dropWhile py_isspace (rev (dropWhile py_isspace s)))"

fun py_join :: "pystr \<Rightarrow> pystr list \<Rightarrow> pystr" where
  "py_join sep [] = []"
| "py_join sep [x] = x"
| "py_join sep (x # y # ys) = x @ sep @ py_join sep (y # ys)"

subsection \<open>Segments and the transcript\<close>

text \<open>A segment of the recognition library; the service reads its field \<^verbatim>\<open>text\<close> only
  (\<open>seg_text\<close> here).\<close>

record segment =
  seg_text :: pystr

record TranscriptionInfo =
  info_language :: string
  info_language_probability :: real
  info_duration :: real

text \<open>The loop \<^verbatim>\<open>for segment in segments: transcript_parts.append(segment.text.strip())\<close>,
  with the list built so far as its second argument.\<close>

fun collect_parts :: "'a segment_scheme list \<Rightarrow> pystr list \<Rightarrow> pystr list" where
  "collect_parts [] transcript_parts = transcript_parts"
| "collect_parts (seg # segments) transcript_parts =
     collect_parts segments (transcript_parts @ [py_strip (seg_text seg)])"

text \<open>The block \<^verbatim>\<open># Collect transcript\<close>, the same in every endpoint.\<close>

definition collect_transcript :: "'a segment_scheme list \<Rightarrow> pystr" where
  "collect_transcript segments = py_join [32] (collect_parts segments [])"

subsection \<open>Exceptions, the model instance and the state of the service\<close>

text \<open>
  The exceptions of the service, all of them subclasses of \<^verbatim>\<open>Exception\<close>, each with the
  text \<^verbatim>\<open>str(e)\<close> gives: \<open>HTTPError\<close> for \<^verbatim>\<open>httpx.HTTPError\<close> and its subclasses,
  \<open>Exception\<close> for every other class.
\<close>

datatype exn = HTTPError string | Exception string

fun str :: "exn \<Rightarrow> string" where
  "str (HTTPError msg) = msg"
| "str (Exception msg) = msg"

datatype WhisperModel =
  WhisperModel (model_size_or_path: string) (device: string) (compute_type: string)

text \<open>
  The state: the global \<open>whisper_model\<close>, the files under \<^verbatim>\<open>/app/temp\<close> with their
  content, and the sizes the constructor \<^verbatim>\<open>WhisperModel\<close> has been called with.
\<close>

record wstate =
  whisper_model :: "WhisperModel option"
  disk :: fs
  loads :: "string list"

text \<open>
  What the service takes from its surroundings:
  \<^item> \<open>WHISPER_MODEL_SIZE\<close>, read from the environment when the module is loaded;
  \<^item> \<open>load\<close>: whether the constructor \<^verbatim>\<open>WhisperModel(size, ...)\<close> raises, given the loads
    made before it;
  \<^item> \<open>mktemp\<close>: \<^verbatim>\<open>tempfile.NamedTemporaryFile(delete=False, suffix=..., dir=...)\<close>, which
    raises or gives the name of the file it has created;
  \<^item> \<open>write_fails\<close>: whether \<^verbatim>\<open>temp_file.write(content)\<close> raises;
  \<^item> \<open>recognise\<close>: \<^verbatim>\<open>whisper.transcribe(path, language=..., beam_size=5)\<close> and the
    iteration over the segments it returns, to the end: the exception raised by the call
    or during the iteration, or the segments and the information;
  \<^item> \<open>http_get\<close>: \<^verbatim>\<open>client.get(url, follow_redirects=True)\<close> and
    \<^verbatim>\<open>response.raise_for_status()\<close>: the exception raised, or the header
    \<^verbatim>\<open>content-type\<close> (empty when absent) and the content.
\<close>

record 'a whisper_env =
  WHISPER_MODEL_SIZE :: string
  load :: "string \<Rightarrow> string list \<Rightarrow> exn option"
  mktemp :: "string \<Rightarrow> string \<Rightarrow> fs \<Rightarrow> exn + string"
  write_fails :: "string \<Rightarrow> string \<Rightarrow> exn option"
  recognise ::
    "WhisperModel \<Rightarrow> string \<Rightarrow> string option \<Rightarrow> fs
       \<Rightarrow> exn + ('a segment_scheme list \<times> TranscriptionInfo)"
  http_get :: "string \<Rightarrow> exn + (string \<times> string)"

subsection \<open>\<open>get_whisper_model\<close>\<close>

text \<open>The constructor call \<^verbatim>\<open>WhisperModel(size, device="cpu", compute_type="int8")\<close>.\<close>

definition new_WhisperModel ::
  "('a, 'b) whisper_env_scheme \<Rightarrow> string \<Rightarrow> wstate \<Rightarrow> (exn + WhisperModel) \<times> wstate" where
  "new_WhisperModel env sz st =
     (case load env sz (loads st) of
        Some e \<Rightarrow> Inl e
      | None \<Rightarrow> Inr (WhisperModel sz ''cpu'' ''int8''),
      st\<lparr>loads := loads st @ [sz]\<rparr>)"

text \<open>The truth value of an \<^verbatim>\<open>Optional[str]\<close>: false for \<^verbatim>\<open>None\<close> and for the empty string.\<close>

definition truthy :: "string option \<Rightarrow> bool" where
  "truthy x = (case x of None \<Rightarrow> False | Some s \<Rightarrow> s \<noteq> [])"

definition get_whisper_model ::
  "('a, 'b) whisper_env_scheme \<Rightarrow> string option \<Rightarrow> wstate \<Rightarrow> (exn + WhisperModel) \<times> wstate" where
  "get_whisper_model env model_size st =
     (let sz = (if truthy model_size then the model_size else WHISPER_MODEL_SIZE env)
      in if whisper_model st \<noteq> None \<and> truthy model_size
            \<and> model_size \<noteq> Some (WHISPER_MODEL_SIZE env)
         then new_WhisperModel env sz st
         else (case whisper_model st of
                 None \<Rightarrow>
                   (case new_WhisperModel env sz st of
                      (Inl e, st') \<Rightarrow> (Inl e, st')
                    | (Inr m, st') \<Rightarrow> (Inr m, st'\<lparr>whisper_model := Some m\<rparr>))
               | Some m \<Rightarrow> (Inr m, st)))"

subsection \<open>The endpoints \<open>transcribe_audio\<close> and \<open>transcribe_from_url\<close>\<close>

record TranscribeResponse =
  t_success :: bool
  t_transcript :: "pystr option"
  t_language :: "string option"
  t_language_probability :: "real option"
  t_duration :: "real option"
  model_used :: string
  t_error :: "string option"

record UploadFile =
  filename :: "string option"
  content :: "exn + string"

record TranscribeUrlRequest =
  u_url :: string
  u_language :: "string option"
  u_model :: string

text \<open>The second component of \<^verbatim>\<open>os.path.splitext\<close>: the extension starts at the last dot
  of the last path component, the leading dots of that component apart.\<close>

definition splitext_ext :: "string \<Rightarrow> string" where
  "splitext_ext p =
     (let base = rev (takeWhile (\<lambda>c. c \<noteq> CHR ''/'') (rev p))
      in if CHR ''.'' \<in> set base
         then (let ext = CHR ''.'' # rev (takeWhile (\<lambda>c. c \<noteq> CHR ''.'') (rev base));
                   stem = take (length base - length ext) base
               in if list_ex (\<lambda>c. c \<noteq> CHR ''.'') stem then ext else [])
         else [])"

definition succeeded ::
  "'a segment_scheme list \<Rightarrow> TranscriptionInfo \<Rightarrow> string \<Rightarrow> TranscribeResponse" where
  "succeeded segments info model =
     \<lparr>t_success = True, t_transcript = Some (collect_transcript segments),
      t_language = Some (info_language info),
      t_language_probability = Some (info_language_probability info),
      t_duration = Some (info_duration info), model_used = model, t_error = None\<rparr>"

definition failed :: "string \<Rightarrow> string \<Rightarrow> TranscribeResponse" where
  "failed msg model =
     \<lparr>t_success = False, t_transcript = None, t_language = None,
      t_language_probability = None, t_duration = None, model_used = model,
      t_error = Some msg\<rparr>"

text \<open>
  The \<^verbatim>\<open>try\<close> block of \<open>transcribe_audio\<close>. Its result is the response returned or the
  exception raised, the variable \<open>temp_file\<close> as the block leaves it (\<open>None\<close>, or the
  name of the file), and the state.
\<close>

definition transcribe_audio_try ::
  "('a, 'b) whisper_env_scheme \<Rightarrow> UploadFile \<Rightarrow> string option \<Rightarrow> string \<Rightarrow> wstate
     \<Rightarrow> (exn + TranscribeResponse) \<times> string option \<times> wstate" where
  "transcribe_audio_try env file lang model st =
     (let sfx = (if truthy (filename file) then splitext_ext (the (filename file)) else ''.mp3'')
      in case mktemp env sfx ''/app/temp'' (disk st) of
           Inl e \<Rightarrow> (Inl e, None, st)
         | Inr name \<Rightarrow>
             (let st1 = st\<lparr>disk := (disk st)(name \<mapsto> [])\<rparr>
              in case content file of
                   Inl e \<Rightarrow> (Inl e, Some name, st1)
                 | Inr bytes \<Rightarrow>
                     (case write_fails env name bytes of
                        Some e \<Rightarrow> (Inl e, Some name, st1)
                      | None \<Rightarrow>
                          (let st2 = st1\<lparr>disk := (disk st1)(name \<mapsto> bytes)\<rparr>
                           in case get_whisper_model env (Some model) st2 of
                                (Inl e, st3) \<Rightarrow> (Inl e, Some name, st3)
                              | (Inr whisper, st3) \<Rightarrow>
                                  (case recognise env whisper name lang (disk st3) of
                                     Inl e \<Rightarrow> (Inl e, Some name, st3)
                                   | Inr (segments, info) \<Rightarrow>
                                       (Inr (succeeded segments info model), Some name, st3))))))"

text \<open>The \<^verbatim>\<open>finally\<close> clause:
  \<^verbatim>\<open>if temp_file and os.path.exists(temp_file.name): os.unlink(temp_file.name)\<close>.\<close>

definition finally_unlink :: "string option \<Rightarrow> wstate \<Rightarrow> wstate" where
  "finally_unlink temp_file st =
     (case temp_file of
        None \<Rightarrow> st
      | Some name \<Rightarrow> (if disk st name \<noteq> None then st\<lparr>disk := (disk st)(name := None)\<rparr> else st))"

definition transcribe_audio ::
  "('a, 'b) whisper_env_scheme \<Rightarrow> UploadFile \<Rightarrow> string option \<Rightarrow> string \<Rightarrow> wstate
     \<Rightarrow> (exn + TranscribeResponse) \<times> wstate" where
  "transcribe_audio env file lang model st =
     (case transcribe_audio_try env file lang model st of
        (r, temp_file, st') \<Rightarrow>
          ((case r of
              Inr response \<Rightarrow> Inr response
            | Inl e \<Rightarrow> Inr (failed (str e) model)),
           finally_unlink temp_file st'))"

definition transcribe_from_url_try ::
  "('a, 'b) whisper_env_scheme \<Rightarrow> TranscribeUrlRequest \<Rightarrow> wstate
     \<Rightarrow> (exn + TranscribeResponse) \<times> string option \<times> wstate" where
  "transcribe_from_url_try env request st =
     (case http_get env (u_url request) of
        Inl e \<Rightarrow> (Inl e, None, st)
      | Inr (content_type, bytes) \<Rightarrow>
          (let sfx =
                 (if sublist ''mp3'' content_type \<or> suffix ''.mp3'' (u_url request) then ''.mp3''
                  else if sublist ''wav'' content_type \<or> suffix ''.wav'' (u_url request) then ''.wav''
                  else if sublist ''m4a'' content_type \<or> suffix ''.m4a'' (u_url request) then ''.m4a''
                  else ''.mp3'')
           in case mktemp env sfx ''/app/temp'' (disk st) of
                Inl e \<Rightarrow> (Inl e, None, st)
              | Inr name \<Rightarrow>
                  (let st1 = st\<lparr>disk := (disk st)(name \<mapsto> [])\<rparr>
                   in case write_fails env name bytes of
                        Some e \<Rightarrow> (Inl e, Some name, st1)
                      | None \<Rightarrow>
                          (let st2 = st1\<lparr>disk := (disk st1)(name \<mapsto> bytes)\<rparr>
                           in case get_whisper_model env (Some (u_model request)) st2 of
                                (Inl e, st3) \<Rightarrow> (Inl e, Some name, st3)
                              | (Inr whisper, st3) \<Rightarrow>
                                  (case recognise env whisper name (u_language request) (disk st3) of
                                     Inl e \<Rightarrow> (Inl e, Some name, st3)
                                   | Inr (segments, info) \<Rightarrow>
                                       (Inr (succeeded segments info (u_model request)),
                                        Some name, st3))))))"

definition transcribe_from_url ::
  "('a, 'b) whisper_env_scheme \<Rightarrow> TranscribeUrlRequest \<Rightarrow> wstate
     \<Rightarrow> (exn + TranscribeResponse) \<times> wstate" where
  "transcribe_from_url env request st =
     (case transcribe_from_url_try env request st of
        (r, temp_file, st') \<Rightarrow>
          ((case r of
              Inr response \<Rightarrow> Inr response
            | Inl (HTTPError msg) \<Rightarrow>
                Inr (failed (''Failed to download audio: '' @ msg) (u_model request))
            | Inl e \<Rightarrow> Inr (failed (str e) (u_model request))),
           finally_unlink temp_file st'))"

subsection \<open>Surroundings for examples\<close>

text \<open>
  Surroundings in which the default size is \<^verbatim>\<open>base\<close>, every model loads, the temporary
  file is \<^verbatim>\<open>tmp8x2k\<close> with the suffix asked for, in the directory asked for, every write
  succeeds, recognition ends as given, and no download succeeds.
\<close>

definition sample_env ::
  "(exn + (segment list \<times> TranscriptionInfo)) \<Rightarrow> unit whisper_env" where
  "sample_env outcome =
     \<lparr>WHISPER_MODEL_SIZE = ''base'',
      load = (\<lambda>sz loaded. None),
      mktemp = (\<lambda>sfx dir fs. Inr (dir @ ''/tmp8x2k'' @ sfx)),
      write_fails = (\<lambda>name bytes. None),
      recognise = (\<lambda>whisper path lang fs. outcome),
      http_get = (\<lambda>u. Inl (HTTPError ''unreachable''))\<rparr>"

section \<open>Properties of the caption and audio service\<close>

subsection \<open>Identifier resolution\<close>

lemma id_char_not_separator:
  "\<not> id_char CHR ''=''" "\<not> id_char CHR ''/''" "\<not> id_char CHR ''.''"
  by (simp_all add: id_char_def)

lemma id_group_token:
  "length t = 11 \<Longrightarrow> list_all id_char t \<Longrightarrow> id_group (t @ rest) = Some t"
  by (simp add: id_group_def)

text \<open>A literal with a character outside the class does not match inside a run of
  characters of the class.\<close>

lemma literal_in_token:
  "list_all id_char s \<Longrightarrow> \<exists>c\<in>set p. \<not> id_char c \<Longrightarrow> literal p s = None"
proof (induction p s rule: literal.induct)
  case (1 s)
  then show ?case by simp
next
  case (2 p ps)
  then show ?case by simp
next
  case (3 p ps c cs)
  then show ?case by auto
qed

lemma alternation_in_token:
  "list_all id_char s \<Longrightarrow> \<forall>p\<in>set ps. \<exists>c\<in>set p. \<not> id_char c \<Longrightarrow> alternation ps s = None"
  by (induction ps) (simp_all add: literal_in_token)

lemma re_search_in_token:
  "list_all id_char s \<Longrightarrow> \<forall>p\<in>set ps. \<exists>c\<in>set p. \<not> id_char c
     \<Longrightarrow> re_search (alternation ps) s = None"
  by (induction s) (simp_all add: alternation_in_token)

lemma url_pattern_in_token:
  "list_all id_char s \<Longrightarrow> re_search (alternation [''v='', ''/v/'', ''youtu.be/'']) s = None"
  by (rule re_search_in_token) (simp_all add: id_char_not_separator)

lemma embed_pattern_in_token:
  "list_all id_char s \<Longrightarrow> re_search (alternation [''embed/'']) s = None"
  by (rule re_search_in_token) (simp_all add: id_char_not_separator)

lemma path_literal_in_token:
  "list_all id_char s \<Longrightarrow> literal ''v/'' s = None"
  by (rule literal_in_token) (simp_all add: id_char_not_separator)

lemmas resolve_simps =
  extract_video_id_def patterns_def id_group_def bare_token_def
  url_pattern_in_token embed_pattern_in_token path_literal_in_token

lemma literal_prefix:
  "literal p s = (if prefix p s then Some (drop (length p) s) else None)"
  by (induction p s rule: literal.induct) auto

lemma marker_step:
  "Option.bind (literal m s) id_group = None \<longleftrightarrow> \<not> token_follows m s"
  by (auto simp: literal_prefix id_group_def token_follows_def)

lemma alternation_None_iff:
  "alternation ms s = None \<longleftrightarrow> (\<forall>m\<in>set ms. \<not> token_follows m s)"
proof (induction ms)
  case Nil
  then show ?case by simp
next
  case (Cons m ms)
  show ?case
  proof (cases "Option.bind (literal m s) id_group")
    case None
    with Cons show ?thesis using marker_step [of m s] by simp
  next
    case (Some g)
    then have "token_follows m s" using marker_step [of m s] by auto
    with Some show ?thesis by auto
  qed
qed

lemma no_earlier_token_Nil: "no_earlier_token ms [] s"
  by (simp add: no_earlier_token_def)

lemma no_earlier_token_Cons:
  "no_earlier_token ms (c # pre) s \<longleftrightarrow>
     (\<forall>m\<in>set ms. \<not> token_follows m (c # pre @ s)) \<and> no_earlier_token ms pre s"
proof -
  have "(\<forall>i<Suc (length pre). \<forall>m\<in>set ms. \<not> token_follows m (drop i (c # pre @ s))) \<longleftrightarrow>
        (\<forall>m\<in>set ms. \<not> token_follows m (c # pre @ s))
        \<and> (\<forall>i<length pre. \<forall>m\<in>set ms. \<not> token_follows m (drop i (pre @ s)))"
    by (simp add: All_less_Suc2)
  then show ?thesis by (simp add: no_earlier_token_def)
qed

lemma re_search_skip:
  "no_earlier_token ms pre s \<Longrightarrow> re_search (alternation ms) (pre @ s) = re_search (alternation ms) s"
proof (induction pre)
  case Nil
  then show ?case by simp
next
  case (Cons c pre)
  then have here: "alternation ms (c # pre @ s) = None" and rest: "no_earlier_token ms pre s"
    by (simp_all add: no_earlier_token_Cons alternation_None_iff)
  from here have "re_search (alternation ms) ((c # pre) @ s) = re_search (alternation ms) (pre @ s)"
    by simp
  with Cons.IH [OF rest] show ?case by simp
qed

lemma re_search_head: "m s = Some g \<Longrightarrow> re_search m s = Some g"
  by (cases s) simp_all

lemma alternation_Nil_string: "alternation ms [] = None"
  by (simp add: alternation_None_iff token_follows_def)

lemma re_search_nowhere:
  "no_earlier_token ms s [] \<Longrightarrow> re_search (alternation ms) s = None"
  using re_search_skip [of ms s "[]"] by (simp add: alternation_Nil_string)

lemma url_marker_here:
  assumes "length t = 11" "list_all id_char t" "m \<in> set [''v='', ''/v/'', ''youtu.be/'']"
  shows "alternation [''v='', ''/v/'', ''youtu.be/''] (m @ t @ rest) = Some t"
  using assms by (auto simp: id_group_token)

lemma embed_marker_here:
  assumes "length t = 11" "list_all id_char t"
  shows "alternation [''embed/''] (''embed/'' @ t @ rest) = Some t"
  using assms by (auto simp: id_group_token)

lemmas token_eval = no_earlier_token_Nil no_earlier_token_Cons token_follows_def id_char_def

text \<open>
  C10, as stated, fails. The claim holds a token to be returned from every accepted surface
  form that contains it; the first pattern is searched without an anchor, so it also
  matches \<^verbatim>\<open>v=\<close> at the end of another parameter name. In the watch URL below the
  parameter \<^verbatim>\<open>rev=20240101123456\<close> comes before \<^verbatim>\<open>v=dQw4w9WgXcQ\<close>, and the
  function returns the first eleven characters of the value of \<^verbatim>\<open>rev\<close>.
\<close>

theorem extract_video_id_earlier_marker_counterexample:
  "length ''dQw4w9WgXcQ'' = 11 \<and> list_all id_char ''dQw4w9WgXcQ''
   \<and> extract_video_id (''https://www.youtube.com/watch?rev=20240101123456&v='' @ ''dQw4w9WgXcQ'')
       = Inr ''20240101123''"
  by (simp add: extract_video_id_def patterns_def id_group_def id_char_def)


text \<open>
  C10, amended. For every token \<open>t\<close> of eleven characters of \<^verbatim>\<open>[A-Za-z0-9_-]\<close>,
  every text \<open>pre\<close> before the marker and every text \<open>rest\<close> after the token:
  \<^item> on \<open>pre @ m @ t @ rest\<close>, where \<open>m\<close> is one of the markers \<^verbatim>\<open>v=\<close>, \<^verbatim>\<open>/v/\<close>,
    \<^verbatim>\<open>youtu.be/\<close> (watch URL, path segment, short link), \<open>extract_video_id\<close> returns
    \<open>t\<close>, provided that no such marker followed by eleven characters of the class
    starts inside \<open>pre\<close>;
  \<^item> on \<open>pre @ ''embed/'' @ t @ rest\<close> it returns \<open>t\<close>, provided that no marker of the
    first pattern followed by eleven characters of the class starts anywhere in the
    string, and that \<^verbatim>\<open>embed/\<close> followed by eleven such characters does not start
    inside \<open>pre\<close>;
  \<^item> on the bare token \<open>t\<close> it returns \<open>t\<close>.
\<close>

theorem extract_video_id_leftmost_marked_token:
  assumes "length t = 11" and "list_all id_char t"
  shows "(m \<in> set [''v='', ''/v/'', ''youtu.be/'']
          \<and> no_earlier_token [''v='', ''/v/'', ''youtu.be/''] pre (m @ t @ rest)
          \<longrightarrow> extract_video_id (pre @ m @ t @ rest) = Inr t)
       \<and> (no_earlier_token [''v='', ''/v/'', ''youtu.be/''] (pre @ ''embed/'' @ t @ rest) []
          \<and> no_earlier_token [''embed/''] pre (''embed/'' @ t @ rest)
          \<longrightarrow> extract_video_id (pre @ ''embed/'' @ t @ rest) = Inr t)
       \<and> extract_video_id t = Inr t"
proof (intro conjI impI)
  assume h: "m \<in> set [''v='', ''/v/'', ''youtu.be/'']
             \<and> no_earlier_token [''v='', ''/v/'', ''youtu.be/''] pre (m @ t @ rest)"
  then have "re_search (alternation [''v='', ''/v/'', ''youtu.be/'']) (pre @ m @ t @ rest)
             = re_search (alternation [''v='', ''/v/'', ''youtu.be/'']) (m @ t @ rest)"
    by (simp add: re_search_skip)
  also have "\<dots> = Some t"
    using h assms by (intro re_search_head url_marker_here) simp_all
  finally show "extract_video_id (pre @ m @ t @ rest) = Inr t"
    by (simp add: extract_video_id_def patterns_def)
next
  assume h: "no_earlier_token [''v='', ''/v/'', ''youtu.be/''] (pre @ ''embed/'' @ t @ rest) []
             \<and> no_earlier_token [''embed/''] pre (''embed/'' @ t @ rest)"
  then have p1: "re_search (alternation [''v='', ''/v/'', ''youtu.be/'']) (pre @ ''embed/'' @ t @ rest) = None"
    by (simp add: re_search_nowhere)
  from h have "re_search (alternation [''embed/'']) (pre @ ''embed/'' @ t @ rest)
             = re_search (alternation [''embed/'']) (''embed/'' @ t @ rest)"
    by (simp add: re_search_skip)
  also have "\<dots> = Some t"
    using assms by (intro re_search_head embed_marker_here) simp_all
  finally show "extract_video_id (pre @ ''embed/'' @ t @ rest) = Inr t"
    using p1 by (simp add: extract_video_id_def patterns_def)
next
  show "extract_video_id t = Inr t"
    using assms by (simp add: resolve_simps)
qed

theorem extract_video_id_leftmost_marked_token_witness:
  "extract_video_id ''https://www.youtube.com/watch?nv=1&v=dQw4w9WgXcQ&t=42'' = Inr ''dQw4w9WgXcQ''
   \<and> extract_video_id ''http://m.youtube.com/watch?feature=share&v=dQw4w9WgXcQ'' = Inr ''dQw4w9WgXcQ''
   \<and> extract_video_id ''https://youtu.be/dQw4w9WgXcQ?t=3'' = Inr ''dQw4w9WgXcQ''
   \<and> extract_video_id ''https://www.youtube-nocookie.com/embed/dQw4w9WgXcQ?autoplay=1'' = Inr ''dQw4w9WgXcQ''
   \<and> extract_video_id ''dQw4w9WgXcQ'' = Inr ''dQw4w9WgXcQ''"
proof -
  have len: "length ''dQw4w9WgXcQ'' = 11" by simp
  have cls: "list_all id_char ''dQw4w9WgXcQ''" by (simp add: id_char_def)
  note inst = extract_video_id_leftmost_marked_token [OF len cls]
  have a: "no_earlier_token [''v='', ''/v/'', ''youtu.be/''] ''https://www.youtube.com/watch?nv=1&''
             (''v='' @ ''dQw4w9WgXcQ'' @ ''&t=42'')"
    by (simp add: token_eval)
  have b: "no_earlier_token [''v='', ''/v/'', ''youtu.be/''] ''http://m.youtube.com/watch?feature=share&''
             (''v='' @ ''dQw4w9WgXcQ'' @ [])"
    by (simp add: token_eval)
  have c: "no_earlier_token [''v='', ''/v/'', ''youtu.be/''] ''https://''
             (''youtu.be/'' @ ''dQw4w9WgXcQ'' @ ''?t=3'')"
    by (simp add: token_eval)
  have d1: "no_earlier_token [''v='', ''/v/'', ''youtu.be/'']
             (''https://www.youtube-nocookie.com/'' @ ''embed/'' @ ''dQw4w9WgXcQ'' @ ''?autoplay=1'') []"
    by (simp add: token_eval)
  have d2: "no_earlier_token [''embed/''] ''https://www.youtube-nocookie.com/''
             (''embed/'' @ ''dQw4w9WgXcQ'' @ ''?autoplay=1'')"
    by (simp add: token_eval)
  from inst [of "''v=''" "''https://www.youtube.com/watch?nv=1&''" "''&t=42''"] a
  have A: "extract_video_id ''https://www.youtube.com/watch?nv=1&v=dQw4w9WgXcQ&t=42'' = Inr ''dQw4w9WgXcQ''"
    by simp
  from inst [of "''v=''" "''http://m.youtube.com/watch?feature=share&''" "[]"] b
  have B: "extract_video_id ''http://m.youtube.com/watch?feature=share&v=dQw4w9WgXcQ'' = Inr ''dQw4w9WgXcQ''"
    by simp
  from inst [of "''youtu.be/''" "''https://''" "''?t=3''"] c
  have C: "extract_video_id ''https://youtu.be/dQw4w9WgXcQ?t=3'' = Inr ''dQw4w9WgXcQ''"
    by simp
  from inst [of _ "''https://www.youtube-nocookie.com/''" "''?autoplay=1''"] d1 d2
  have D: "extract_video_id ''https://www.youtube-nocookie.com/embed/dQw4w9WgXcQ?autoplay=1'' = Inr ''dQw4w9WgXcQ''"
    by simp
  from inst have E: "extract_video_id ''dQw4w9WgXcQ'' = Inr ''dQw4w9WgXcQ''"
    by simp
  from A B C D E show ?thesis by simp
qed

subsection \<open>The audio endpoint\<close>

lemma id_group_valid: "id_group s = Some g \<Longrightarrow> length g = 11 \<and> list_all id_char g"
  by (auto simp: id_group_def split: if_splits)

lemma alternation_valid: "alternation ms s = Some g \<Longrightarrow> length g = 11 \<and> list_all id_char g"
proof (induction ms)
  case Nil
  then show ?case by simp
next
  case (Cons m ms)
  then show ?case
    by (cases "literal m s") (auto split: option.splits dest: id_group_valid)
qed

lemma re_search_valid:
  "re_search (alternation ms) s = Some g \<Longrightarrow> length g = 11 \<and> list_all id_char g"
  by (induction s) (auto split: option.splits dest: alternation_valid)

lemma bare_token_valid: "bare_token s = Some g \<Longrightarrow> length g = 11 \<and> list_all id_char g"
  by (auto simp: bare_token_def split: option.splits if_splits dest: id_group_valid)

lemma extract_video_id_valid:
  "extract_video_id u = Inr vid \<Longrightarrow> length vid = 11 \<and> list_all id_char vid"
  by (auto simp: extract_video_id_def patterns_def split: option.splits
      dest: re_search_valid bare_token_valid)

lemma id_char_not_dot: "id_char c \<Longrightarrow> c \<noteq> CHR ''.''"
  by (auto simp: id_char_def)

lemma py_replace_suffix:
  "list_all id_char v \<Longrightarrow> py_replace ''.mp3'' new (v @ ''.mp3'') = v @ new"
  by (induction v) (auto dest: id_char_not_dot)

lemma audio_cmd_explicit:
  "list_all id_char vid \<Longrightarrow>
   audio_cmd vid =
     [''yt-dlp'', ''-x'', ''--audio-format'', ''mp3'', ''-o'', ''/app/temp/'' @ vid @ ''.%(ext)s'',
      ''https://www.youtube.com/watch?v='' @ vid]"
  by (simp add: audio_cmd_def output_path_of_def watch_url_def py_replace_suffix)

text \<open>
  C6. For every video identifier \<open>vid\<close> that \<open>extract_video_id\<close> finds in the URL: when
  a file exists at the cache path \<^verbatim>\<open>/app/temp/<vid>.mp3\<close>, the endpoint returns that
  path with \<^verbatim>\<open>cached\<close> true and leaves the world as it was, so that no invocation is
  made; when none exists, it makes exactly one invocation, the download command, with a
  timeout of 300 seconds, and when that invocation exits with status 0 and the file then
  exists, it returns the same path with \<^verbatim>\<open>cached\<close> false.
\<close>

theorem download_youtube_audio_cache:
  assumes "extract_video_id u = Inr vid"
  shows "(files w (''/app/temp/'' @ vid @ ''.mp3'') \<noteq> None \<longrightarrow>
            download_youtube_audio cap u w =
              (Inr [(''success'', Bool True), (''audio_path'', Str (''/app/temp/'' @ vid @ ''.mp3'')),
                    (''video_id'', Str vid), (''cached'', Bool True)], w))
       \<and> (files w (''/app/temp/'' @ vid @ ''.mp3'') = None \<longrightarrow>
            calls (snd (download_youtube_audio cap u w)) =
              calls w @ [([''yt-dlp'', ''-x'', ''--audio-format'', ''mp3'', ''-o'',
                           ''/app/temp/'' @ vid @ ''.%(ext)s'',
                           ''https://www.youtube.com/watch?v='' @ vid], 300)]
            \<and> (\<forall>out err fs'.
                  cap [''yt-dlp'', ''-x'', ''--audio-format'', ''mp3'', ''-o'',
                       ''/app/temp/'' @ vid @ ''.%(ext)s'',
                       ''https://www.youtube.com/watch?v='' @ vid] 300 (files w)
                    = (Exited (CompletedProcess 0 out err), fs')
                  \<and> fs' (''/app/temp/'' @ vid @ ''.mp3'') \<noteq> None
                  \<longrightarrow> fst (download_youtube_audio cap u w) =
                        Inr [(''success'', Bool True),
                             (''audio_path'', Str (''/app/temp/'' @ vid @ ''.mp3'')),
                             (''video_id'', Str vid), (''cached'', Bool False)]))"
proof -
  from assms have "list_all id_char vid" by (simp add: extract_video_id_valid)
  then have cmd: "audio_cmd vid =
     [''yt-dlp'', ''-x'', ''--audio-format'', ''mp3'', ''-o'', ''/app/temp/'' @ vid @ ''.%(ext)s'',
      ''https://www.youtube.com/watch?v='' @ vid]"
    by (rule audio_cmd_explicit)
  show ?thesis
    using assms unfolding cmd [symmetric]
    by (auto simp add: download_youtube_audio_def subprocess_run_def path_exists_def
        audio_result_def output_path_of_def
        split: prod.splits proc_outcome.splits yt_exn.splits sum.splits)
qed

theorem download_youtube_audio_cache_witness:
  "extract_video_id ''https://youtu.be/dQw4w9WgXcQ'' = Inr ''dQw4w9WgXcQ''
   \<and> download_youtube_audio (\<lambda>cmd timeout fs. (TimedOut, fs)) ''https://youtu.be/dQw4w9WgXcQ''
         \<lparr>files = [''/app/temp/dQw4w9WgXcQ.mp3'' \<mapsto> ''ID3''], calls = []\<rparr>
       = (Inr [(''success'', Bool True), (''audio_path'', Str ''/app/temp/dQw4w9WgXcQ.mp3''),
               (''video_id'', Str ''dQw4w9WgXcQ''), (''cached'', Bool True)],
          \<lparr>files = [''/app/temp/dQw4w9WgXcQ.mp3'' \<mapsto> ''ID3''], calls = []\<rparr>)
   \<and> calls (snd (download_youtube_audio
         (\<lambda>cmd timeout fs. (Exited (CompletedProcess 0 [] []), fs(''/app/temp/dQw4w9WgXcQ.mp3'' \<mapsto> ''ID3'')))
         ''https://youtu.be/dQw4w9WgXcQ'' \<lparr>files = Map.empty, calls = []\<rparr>))
       = [([''yt-dlp'', ''-x'', ''--audio-format'', ''mp3'', ''-o'', ''/app/temp/dQw4w9WgXcQ.%(ext)s'',
            ''https://www.youtube.com/watch?v=dQw4w9WgXcQ''], 300)]
   \<and> fst (download_youtube_audio
         (\<lambda>cmd timeout fs. (Exited (CompletedProcess 0 [] []), fs(''/app/temp/dQw4w9WgXcQ.mp3'' \<mapsto> ''ID3'')))
         ''https://youtu.be/dQw4w9WgXcQ'' \<lparr>files = Map.empty, calls = []\<rparr>)
       = Inr [(''success'', Bool True), (''audio_path'', Str ''/app/temp/dQw4w9WgXcQ.mp3''),
              (''video_id'', Str ''dQw4w9WgXcQ''), (''cached'', Bool False)]"
proof -
  have vid: "extract_video_id ''https://youtu.be/dQw4w9WgXcQ'' = Inr ''dQw4w9WgXcQ''"
    by (simp add: extract_video_id_def patterns_def id_group_def id_char_def)
  from download_youtube_audio_cache [OF vid,
      of "\<lparr>files = [''/app/temp/dQw4w9WgXcQ.mp3'' \<mapsto> ''ID3''], calls = []\<rparr>"
         "\<lambda>cmd timeout fs. (TimedOut, fs)"]
  have hit: "download_youtube_audio (\<lambda>cmd timeout fs. (TimedOut, fs)) ''https://youtu.be/dQw4w9WgXcQ''
         \<lparr>files = [''/app/temp/dQw4w9WgXcQ.mp3'' \<mapsto> ''ID3''], calls = []\<rparr>
       = (Inr [(''success'', Bool True), (''audio_path'', Str ''/app/temp/dQw4w9WgXcQ.mp3''),
               (''video_id'', Str ''dQw4w9WgXcQ''), (''cached'', Bool True)],
          \<lparr>files = [''/app/temp/dQw4w9WgXcQ.mp3'' \<mapsto> ''ID3''], calls = []\<rparr>)"
    by simp
  from download_youtube_audio_cache [OF vid,
      of "\<lparr>files = Map.empty, calls = []\<rparr>"
         "\<lambda>cmd timeout fs. (Exited (CompletedProcess 0 [] []), fs(''/app/temp/dQw4w9WgXcQ.mp3'' \<mapsto> ''ID3''))"]
  have miss: "calls (snd (download_youtube_audio
         (\<lambda>cmd timeout fs. (Exited (CompletedProcess 0 [] []), fs(''/app/temp/dQw4w9WgXcQ.mp3'' \<mapsto> ''ID3'')))
         ''https://youtu.be/dQw4w9WgXcQ'' \<lparr>files = Map.empty, calls = []\<rparr>))
       = [([''yt-dlp'', ''-x'', ''--audio-format'', ''mp3'', ''-o'', ''/app/temp/dQw4w9WgXcQ.%(ext)s'',
            ''https://www.youtube.com/watch?v=dQw4w9WgXcQ''], 300)]
     \<and> fst (download_youtube_audio
         (\<lambda>cmd timeout fs. (Exited (CompletedProcess 0 [] []), fs(''/app/temp/dQw4w9WgXcQ.mp3'' \<mapsto> ''ID3'')))
         ''https://youtu.be/dQw4w9WgXcQ'' \<lparr>files = Map.empty, calls = []\<rparr>)
       = Inr [(''success'', Bool True), (''audio_path'', Str ''/app/temp/dQw4w9WgXcQ.mp3''),
              (''video_id'', Str ''dQw4w9WgXcQ''), (''cached'', Bool False)]"
    by simp
  from vid hit miss show ?thesis by simp
qed

subsection \<open>The transcript endpoint\<close>

text \<open>
  C2. For every request with \<open>prefer_manual\<close> set whose identifier resolves: when the
  invocation for manual captions ends and leaves no caption file, and the invocation
  for automatic captions ends and leaves the caption file with the text \<open>doc\<close>, the
  endpoint returns \<^verbatim>\<open>success\<close> true, the source \<^verbatim>\<open>auto-generated\<close> and the transcript
  \<open>clean_vtt_content doc\<close>, with the title and duration the metadata step found.
\<close>

theorem auto_captions_when_manual_absent:
  assumes "extract_video_id (url request) = Inr vid"
    and "prefer_manual request"
    and "fetch_metadata env (watch_url vid) w = ((ttl, dur), w1)"
    and "run env (cmd_manual (req_language request) (os_path_join (temp_dir env) ''subs'') (watch_url vid))
           120 (files w1) = (Exited r1, fs2)"
    and "fs2 (vtt_file (os_path_join (temp_dir env) ''subs'') (req_language request)) = None"
    and "run env (cmd_auto (req_language request) (os_path_join (temp_dir env) ''subs'') (watch_url vid))
           120 fs2 = (Exited r2, fs3)"
    and "fs3 (vtt_file (os_path_join (temp_dir env) ''subs'') (req_language request)) = Some doc"
  shows "fst (extract_youtube_transcript env request w) =
           Inr \<lparr>success = True, video_id = vid, title = ttl,
                transcript = Some (clean_vtt_content env doc),
                source = Some ''auto-generated'', language = req_language request,
                duration = dur, error = None\<rparr>"
  using assms
  by (simp add: extract_youtube_transcript_def captions_def auto_captions_def subprocess_run_def Let_def)

theorem auto_captions_when_manual_absent_witness:
  "fst (extract_youtube_transcript
          \<lparr>run = (\<lambda>cmd timeout fs.
                    if ''--write-auto-sub'' \<in> set cmd
                    then (Exited (CompletedProcess 0 [] []),
                          fs(''/tmp/tmpk3/subs.en.vtt'' \<mapsto> ''WEBVTT hello''))
                    else (Exited (CompletedProcess 1 [] []), fs)),
           json_info = (\<lambda>s. None), temp_dir = ''/tmp/tmpk3'', clean_vtt_content = drop 7\<rparr>
          \<lparr>url = ''https://youtu.be/dQw4w9WgXcQ'', req_language = ''en'', prefer_manual = True\<rparr>
          \<lparr>files = Map.empty, calls = []\<rparr>)
   = Inr \<lparr>success = True, video_id = ''dQw4w9WgXcQ'', title = None, transcript = Some ''hello'',
          source = Some ''auto-generated'', language = ''en'', duration = None, error = None\<rparr>"
proof -
  let ?env = "\<lparr>run = (\<lambda>cmd timeout fs.
                    if ''--write-auto-sub'' \<in> set cmd
                    then (Exited (CompletedProcess 0 [] []),
                          fs(''/tmp/tmpk3/subs.en.vtt'' \<mapsto> ''WEBVTT hello''))
                    else (Exited (CompletedProcess 1 [] []), fs)),
           json_info = (\<lambda>s. None), temp_dir = ''/tmp/tmpk3'', clean_vtt_content = drop 7\<rparr>"
  let ?req = "\<lparr>url = ''https://youtu.be/dQw4w9WgXcQ'', req_language = ''en'', prefer_manual = True\<rparr>"
  let ?w1 = "\<lparr>files = Map.empty,
              calls = [([''yt-dlp'', ''--dump-json'', ''--no-download'',
                         ''https://www.youtube.com/watch?v=dQw4w9WgXcQ''], 30::nat)]\<rparr>"
  let ?fs3 = "[''/tmp/tmpk3/subs.en.vtt'' \<mapsto> ''WEBVTT hello'']"
  have 1: "extract_video_id (url ?req) = Inr ''dQw4w9WgXcQ''"
    by (simp add: extract_video_id_def patterns_def id_group_def id_char_def)
  have 2: "prefer_manual ?req" by simp
  have 3: "fetch_metadata ?env (watch_url ''dQw4w9WgXcQ'') \<lparr>files = Map.empty, calls = []\<rparr>
             = ((None, None), ?w1)"
    by (simp add: fetch_metadata_def subprocess_run_def watch_url_def)
  have 4: "run ?env (cmd_manual (req_language ?req) (os_path_join (temp_dir ?env) ''subs'')
             (watch_url ''dQw4w9WgXcQ'')) 120 (files ?w1) = (Exited (CompletedProcess 1 [] []), Map.empty)"
    by (simp add: cmd_manual_def os_path_join_def watch_url_def)
  have 5: "Map.empty (vtt_file (os_path_join (temp_dir ?env) ''subs'') (req_language ?req)) = None"
    by simp
  have 6: "run ?env (cmd_auto (req_language ?req) (os_path_join (temp_dir ?env) ''subs'')
             (watch_url ''dQw4w9WgXcQ'')) 120 Map.empty = (Exited (CompletedProcess 0 [] []), ?fs3)"
    by (simp add: cmd_auto_def os_path_join_def watch_url_def)
  have 7: "?fs3 (vtt_file (os_path_join (temp_dir ?env) ''subs'') (req_language ?req)) = Some ''WEBVTT hello''"
    by (simp add: vtt_file_def os_path_join_def)
  from auto_captions_when_manual_absent [OF 1 2 3 4 5 6 7] show ?thesis by simp
qed

text \<open>
  C3. For every request whose identifier resolves: when every caption invocation made
  (the manual one if \<open>prefer_manual\<close> is set, then the automatic one) ends and leaves no
  caption file, the endpoint returns \<^verbatim>\<open>success\<close> false with the error
  \<^verbatim>\<open>No subtitles available. Use whisper-server for audio transcription.\<close>
\<close>

theorem no_captions_failure:
  assumes "extract_video_id (url request) = Inr vid"
    and "fetch_metadata env (watch_url vid) w = ((ttl, dur), w1)"
    and "if prefer_manual request
         then (\<exists>r1. run env (cmd_manual (req_language request) (os_path_join (temp_dir env) ''subs'')
                              (watch_url vid)) 120 (files w1) = (Exited r1, fs2))
              \<and> fs2 (vtt_file (os_path_join (temp_dir env) ''subs'') (req_language request)) = None
         else fs2 = files w1"
    and "run env (cmd_auto (req_language request) (os_path_join (temp_dir env) ''subs'') (watch_url vid))
           120 fs2 = (Exited r2, fs3)"
    and "fs3 (vtt_file (os_path_join (temp_dir env) ''subs'') (req_language request)) = None"
  shows "fst (extract_youtube_transcript env request w) =
           Inr \<lparr>success = False, video_id = vid, title = ttl, transcript = None,
                source = None, language = req_language request, duration = dur,
                error = Some ''No subtitles available. Use whisper-server for audio transcription.''\<rparr>"
proof (cases "prefer_manual request")
  case True
  with assms show ?thesis
    by (auto simp add: extract_youtube_transcript_def captions_def auto_captions_def subprocess_run_def Let_def)
next
  case False
  with assms show ?thesis
    by (simp add: extract_youtube_transcript_def captions_def auto_captions_def subprocess_run_def Let_def)
qed

theorem no_captions_failure_witness:
  "fst (extract_youtube_transcript
          \<lparr>run = (\<lambda>cmd timeout fs. (Exited (CompletedProcess 1 [] ''ERROR''), fs)),
           json_info = (\<lambda>s. None), temp_dir = ''/tmp/tmpk3'', clean_vtt_content = drop 7\<rparr>
          \<lparr>url = ''https://youtu.be/dQw4w9WgXcQ'', req_language = ''en'', prefer_manual = True\<rparr>
          \<lparr>files = Map.empty, calls = []\<rparr>)
   = Inr \<lparr>success = False, video_id = ''dQw4w9WgXcQ'', title = None, transcript = None,
          source = None, language = ''en'', duration = None,
          error = Some ''No subtitles available. Use whisper-server for audio transcription.''\<rparr>"
proof -
  let ?env = "\<lparr>run = (\<lambda>cmd timeout fs. (Exited (CompletedProcess 1 [] ''ERROR''), fs)),
           json_info = (\<lambda>s. None), temp_dir = ''/tmp/tmpk3'', clean_vtt_content = drop 7\<rparr>"
  let ?req = "\<lparr>url = ''https://youtu.be/dQw4w9WgXcQ'', req_language = ''en'', prefer_manual = True\<rparr>"
  let ?w1 = "\<lparr>files = Map.empty,
              calls = [([''yt-dlp'', ''--dump-json'', ''--no-download'',
                         ''https://www.youtube.com/watch?v=dQw4w9WgXcQ''], 30::nat)]\<rparr>"
  have 1: "extract_video_id (url ?req) = Inr ''dQw4w9WgXcQ''"
    by (simp add: extract_video_id_def patterns_def id_group_def id_char_def)
  have 2: "fetch_metadata ?env (watch_url ''dQw4w9WgXcQ'') \<lparr>files = Map.empty, calls = []\<rparr>
             = ((None, None), ?w1)"
    by (simp add: fetch_metadata_def subprocess_run_def watch_url_def)
  have 3: "if prefer_manual ?req
           then (\<exists>r1. run ?env (cmd_manual (req_language ?req) (os_path_join (temp_dir ?env) ''subs'')
                                (watch_url ''dQw4w9WgXcQ'')) 120 (files ?w1) = (Exited r1, Map.empty))
                \<and> Map.empty (vtt_file (os_path_join (temp_dir ?env) ''subs'') (req_language ?req)) = None
           else Map.empty = files ?w1"
    by simp
  have 4: "run ?env (cmd_auto (req_language ?req) (os_path_join (temp_dir ?env) ''subs'')
             (watch_url ''dQw4w9WgXcQ'')) 120 Map.empty = (Exited (CompletedProcess 1 [] ''ERROR''), Map.empty)"
    by simp
  have 5: "Map.empty (vtt_file (os_path_join (temp_dir ?env) ''subs'') (req_language ?req)) = None"
    by simp
  from no_captions_failure [OF 1 2 3 4 5] show ?thesis by simp
qed

text \<open>
  C1 does not hold of the transcript endpoint. The two calls of \<^verbatim>\<open>subprocess.run\<close>
  that fetch captions stand outside every \<^verbatim>\<open>try\<close>, unlike the call that fetches the
  metadata: when the invocation for manual captions runs past its 120 seconds, the
  exception \<^verbatim>\<open>TimeoutExpired\<close> leaves the endpoint and no response is built. Below, the
  metadata invocation succeeds and every caption invocation times out.
\<close>

theorem transcript_caption_timeout_escapes:
  "fst (extract_youtube_transcript
          \<lparr>run = (\<lambda>cmd timeout fs.
                    if timeout = 120 then (TimedOut, fs)
                    else (Exited (CompletedProcess 0 ''{}'' []), fs)),
           json_info = (\<lambda>s. Some (None, None)),
           temp_dir = ''/tmp/tmpk3'', clean_vtt_content = (\<lambda>s. s)\<rparr>
          \<lparr>url = ''https://youtu.be/dQw4w9WgXcQ'', req_language = ''en'', prefer_manual = True\<rparr>
          \<lparr>files = Map.empty, calls = []\<rparr>) = Inl TimeoutExpired"
  by (simp add: extract_youtube_transcript_def captions_def fetch_metadata_def subprocess_run_def
      extract_video_id_def patterns_def id_group_def id_char_def)

section \<open>Properties of the transcription service\<close>

subsection \<open>The model and the files\<close>

lemma new_WhisperModel_disk: "new_WhisperModel env sz st = (r, st') \<Longrightarrow> disk st' = disk st"
  by (auto simp: new_WhisperModel_def)

lemma get_whisper_model_disk:
  "get_whisper_model env ms st = (r, st') \<Longrightarrow> disk st' = disk st"
  by (auto simp: get_whisper_model_def Let_def new_WhisperModel_def
      split: if_splits option.splits prod.splits sum.splits)

lemma get_whisper_model_ignores_disk:
  "fst (get_whisper_model env ms (st\<lparr>disk := d\<rparr>)) = fst (get_whisper_model env ms st)"
  by (auto simp: get_whisper_model_def Let_def new_WhisperModel_def
      split: if_splits option.splits prod.splits sum.splits)

subsection \<open>The transcript of the segments\<close>

lemma collect_parts_map:
  "collect_parts segments acc = acc @ map (\<lambda>seg. py_strip (seg_text seg)) segments"
  by (induction segments arbitrary: acc) simp_all

lemma py_join_append:
  "xs \<noteq> [] \<Longrightarrow> ys \<noteq> [] \<Longrightarrow> py_join sep (xs @ ys) = py_join sep xs @ sep @ py_join sep ys"
proof (induction sep xs rule: py_join.induct)
  case (1 sep)
  then show ?case by simp
next
  case (2 sep x)
  then show ?case by (cases ys) simp_all
next
  case (3 sep x y ys')
  then show ?case by simp
qed

lemma py_strip_split:
  "s = takeWhile py_isspace s @ py_strip s
         @ rev (takeWhile py_isspace (rev (dropWhile py_isspace s)))"
proof -
  let ?d = "dropWhile py_isspace s"
  have "rev (takeWhile py_isspace (rev ?d) @ dropWhile py_isspace (rev ?d)) = ?d"
    by (simp only: takeWhile_dropWhile_id rev_rev_ident)
  then have "py_strip s @ rev (takeWhile py_isspace (rev ?d)) = ?d"
    by (simp only: rev_append py_strip_def)
  moreover have "takeWhile py_isspace s @ ?d = s"
    by (rule takeWhile_dropWhile_id)
  ultimately show ?thesis by simp
qed

lemma last_dropWhile:
  "dropWhile P xs \<noteq> [] \<Longrightarrow> last (dropWhile P xs) = last xs"
  by (induction xs) auto

lemma py_strip_ends:
  assumes "py_strip s \<noteq> []"
  shows "\<not> py_isspace (hd (py_strip s)) \<and> \<not> py_isspace (last (py_strip s))"
proof -
  let ?d = "dropWhile py_isspace s"
  let ?e = "dropWhile py_isspace (rev ?d)"
  from assms have e: "?e \<noteq> []" by (simp add: py_strip_def)
  have d: "?d \<noteq> []"
  proof
    assume "?d = []"
    then have "?e = []" by (simp only: rev.simps dropWhile.simps)
    with e show False by (simp only: not_True_eq_False simp_thms)
  qed
  have tail: "\<not> py_isspace (hd ?e)" using e by (rule hd_dropWhile)
  have head: "\<not> py_isspace (hd ?d)" using d by (rule hd_dropWhile)
  have "last ?e = last (rev ?d)" using e by (rule last_dropWhile)
  also have "\<dots> = hd ?d" by (rule last_rev)
  finally have "last ?e = hd ?d" .
  with head have first: "\<not> py_isspace (last ?e)" by simp
  have "hd (py_strip s) = last ?e" by (simp only: py_strip_def hd_rev)
  moreover have "last (py_strip s) = hd ?e" by (simp only: py_strip_def last_rev)
  ultimately show ?thesis using first tail by simp
qed

lemma py_strip_only_space:
  "\<exists>l r. s = l @ py_strip s @ r \<and> list_all py_isspace l \<and> list_all py_isspace r"
proof -
  let ?l = "takeWhile py_isspace s"
  let ?r = "rev (takeWhile py_isspace (rev (dropWhile py_isspace s)))"
  have "s = ?l @ py_strip s @ ?r" by (rule py_strip_split)
  moreover have "list_all py_isspace ?l"
    by (simp add: list_all_iff) (meson set_takeWhileD)
  moreover have "list_all py_isspace ?r"
    by (simp add: list_all_iff) (meson set_takeWhileD)
  ultimately show ?thesis by blast
qed

lemma transcribe_audio_success:
  assumes "mktemp env (if truthy (filename file) then splitext_ext (the (filename file)) else ''.mp3'')
             ''/app/temp'' (disk st) = Inr name"
    and "content file = Inr bytes"
    and "write_fails env name bytes = None"
    and "fst (get_whisper_model env (Some model) st) = Inr whisper"
    and "recognise env whisper name lang ((disk st)(name \<mapsto> bytes)) = Inr (segments, info)"
  shows "fst (transcribe_audio env file lang model st) = Inr (succeeded segments info model)"
proof -
  let ?st2 = "st\<lparr>disk := (disk st)(name \<mapsto> bytes)\<rparr>"
  obtain r st3 where gm: "get_whisper_model env (Some model) ?st2 = (r, st3)"
    by (cases "get_whisper_model env (Some model) ?st2") auto
  then have "r = fst (get_whisper_model env (Some model) ?st2)" by simp
  with assms(4) have r: "r = Inr whisper" by (simp add: get_whisper_model_ignores_disk)
  from gm have d: "disk st3 = (disk st)(name \<mapsto> bytes)"
    by (auto dest: get_whisper_model_disk)
  show ?thesis
    using assms gm r d
    by (simp add: transcribe_audio_def transcribe_audio_try_def Let_def)
qed

lemma transcribe_from_url_success:
  assumes "http_get env (u_url request) = Inr (content_type, bytes)"
    and "mktemp env
           (if sublist ''mp3'' content_type \<or> suffix ''.mp3'' (u_url request) then ''.mp3''
            else if sublist ''wav'' content_type \<or> suffix ''.wav'' (u_url request) then ''.wav''
            else if sublist ''m4a'' content_type \<or> suffix ''.m4a'' (u_url request) then ''.m4a''
            else ''.mp3'')
           ''/app/temp'' (disk st) = Inr name"
    and "write_fails env name bytes = None"
    and "fst (get_whisper_model env (Some (u_model request)) st) = Inr whisper"
    and "recognise env whisper name (u_language request) ((disk st)(name \<mapsto> bytes))
           = Inr (segments, info)"
  shows "fst (transcribe_from_url env request st) = Inr (succeeded segments info (u_model request))"
proof -
  let ?st2 = "st\<lparr>disk := (disk st)(name \<mapsto> bytes)\<rparr>"
  obtain r st3 where gm: "get_whisper_model env (Some (u_model request)) ?st2 = (r, st3)"
    by (cases "get_whisper_model env (Some (u_model request)) ?st2") auto
  then have "r = fst (get_whisper_model env (Some (u_model request)) ?st2)" by simp
  with assms(4) have r: "r = Inr whisper" by (simp add: get_whisper_model_ignores_disk)
  from gm have d: "disk st3 = (disk st)(name \<mapsto> bytes)"
    by (auto dest: get_whisper_model_disk)
  show ?thesis
    using assms gm r d
    by (simp add: transcribe_from_url_def transcribe_from_url_try_def Let_def)
qed

text \<open>
  C4. For every finite list of segments, the transcript is the texts of the segments,
  each stripped, joined by single spaces. Stripping removes white space only, and a
  stripped text that is not empty neither starts nor ends with white space. The
  transcript of no segment is empty, that of one segment is its stripped text, and
  wherever the list is cut in two non-empty parts, the transcript is the transcript of
  the first part, one space, and the transcript of the second. Whenever the recognition
  returns the segments, \<open>transcribe_audio\<close> and \<open>transcribe_from_url\<close> return a response
  with \<^verbatim>\<open>success\<close> true whose \<^verbatim>\<open>transcript\<close> is the stripped texts joined by
  single spaces.
\<close>

theorem collect_transcript_trimmed_space_joined:
  "collect_transcript segments = py_join [32] (map (\<lambda>seg. py_strip (seg_text seg)) segments)
   \<and> (\<forall>seg\<in>set segments.
         (\<exists>l r. seg_text seg = l @ py_strip (seg_text seg) @ r
                \<and> list_all py_isspace l \<and> list_all py_isspace r)
         \<and> (py_strip (seg_text seg) \<noteq> [] \<longrightarrow>
              \<not> py_isspace (hd (py_strip (seg_text seg)))
              \<and> \<not> py_isspace (last (py_strip (seg_text seg)))))
   \<and> (segments = [] \<longrightarrow> collect_transcript segments = [])
   \<and> (\<forall>seg. segments = [seg] \<longrightarrow> collect_transcript segments = py_strip (seg_text seg))
   \<and> (\<forall>xs ys. segments = xs @ ys \<and> xs \<noteq> [] \<and> ys \<noteq> [] \<longrightarrow>
         collect_transcript segments = collect_transcript xs @ [32] @ collect_transcript ys)
   \<and> (mktemp env (if truthy (filename file) then splitext_ext (the (filename file)) else ''.mp3'')
         ''/app/temp'' (disk st) = Inr name
       \<and> content file = Inr bytes
       \<and> write_fails env name bytes = None
       \<and> fst (get_whisper_model env (Some model) st) = Inr whisper
       \<and> recognise env whisper name lang ((disk st)(name \<mapsto> bytes)) = Inr (segments, info)
       \<longrightarrow> (\<exists>response. fst (transcribe_audio env file lang model st) = Inr response
              \<and> t_success response
              \<and> t_transcript response =
                  Some (py_join [32] (map (\<lambda>seg. py_strip (seg_text seg)) segments))))
   \<and> (http_get env (u_url request) = Inr (content_type, bytes)
       \<and> mktemp env
           (if sublist ''mp3'' content_type \<or> suffix ''.mp3'' (u_url request) then ''.mp3''
            else if sublist ''wav'' content_type \<or> suffix ''.wav'' (u_url request) then ''.wav''
            else if sublist ''m4a'' content_type \<or> suffix ''.m4a'' (u_url request) then ''.m4a''
            else ''.mp3'')
           ''/app/temp'' (disk st) = Inr name
       \<and> write_fails env name bytes = None
       \<and> fst (get_whisper_model env (Some (u_model request)) st) = Inr whisper
       \<and> recognise env whisper name (u_language request) ((disk st)(name \<mapsto> bytes))
           = Inr (segments, info)
       \<longrightarrow> (\<exists>response. fst (transcribe_from_url env request st) = Inr response
              \<and> t_success response
              \<and> t_transcript response =
                  Some (py_join [32] (map (\<lambda>seg. py_strip (seg_text seg)) segments))))"
proof -
  have joined:
    "collect_transcript segments = py_join [32] (map (\<lambda>seg. py_strip (seg_text seg)) segments)"
    by (simp add: collect_transcript_def collect_parts_map)
  have trimmed: "\<forall>seg\<in>set segments.
         (\<exists>l r. seg_text seg = l @ py_strip (seg_text seg) @ r
                \<and> list_all py_isspace l \<and> list_all py_isspace r)
         \<and> (py_strip (seg_text seg) \<noteq> [] \<longrightarrow>
              \<not> py_isspace (hd (py_strip (seg_text seg)))
              \<and> \<not> py_isspace (last (py_strip (seg_text seg))))"
    using py_strip_only_space py_strip_ends by blast
  have none: "segments = [] \<longrightarrow> collect_transcript segments = []"
    by (simp add: collect_transcript_def)
  have one: "\<forall>seg. segments = [seg] \<longrightarrow> collect_transcript segments = py_strip (seg_text seg)"
    by (simp add: collect_transcript_def)
  have between: "\<forall>xs ys. segments = xs @ ys \<and> xs \<noteq> [] \<and> ys \<noteq> [] \<longrightarrow>
         collect_transcript segments = collect_transcript xs @ [32] @ collect_transcript ys"
    by (simp add: collect_transcript_def collect_parts_map py_join_append)
  have result: "t_success (succeeded segments info m)
      \<and> t_transcript (succeeded segments info m) =
          Some (py_join [32] (map (\<lambda>seg. py_strip (seg_text seg)) segments))" for m
    using joined by (simp add: succeeded_def)
  have upload: "mktemp env (if truthy (filename file) then splitext_ext (the (filename file)) else ''.mp3'')
         ''/app/temp'' (disk st) = Inr name
       \<and> content file = Inr bytes
       \<and> write_fails env name bytes = None
       \<and> fst (get_whisper_model env (Some model) st) = Inr whisper
       \<and> recognise env whisper name lang ((disk st)(name \<mapsto> bytes)) = Inr (segments, info)
       \<longrightarrow> (\<exists>response. fst (transcribe_audio env file lang model st) = Inr response
              \<and> t_success response
              \<and> t_transcript response =
                  Some (py_join [32] (map (\<lambda>seg. py_strip (seg_text seg)) segments)))"
    using transcribe_audio_success [of env "file" st name bytes model whisper lang segments info] result
    by blast
  have from_url: "http_get env (u_url request) = Inr (content_type, bytes)
       \<and> mktemp env
           (if sublist ''mp3'' content_type \<or> suffix ''.mp3'' (u_url request) then ''.mp3''
            else if sublist ''wav'' content_type \<or> suffix ''.wav'' (u_url request) then ''.wav''
            else if sublist ''m4a'' content_type \<or> suffix ''.m4a'' (u_url request) then ''.m4a''
            else ''.mp3'')
           ''/app/temp'' (disk st) = Inr name
       \<and> write_fails env name bytes = None
       \<and> fst (get_whisper_model env (Some (u_model request)) st) = Inr whisper
       \<and> recognise env whisper name (u_language request) ((disk st)(name \<mapsto> bytes))
           = Inr (segments, info)
       \<longrightarrow> (\<exists>response. fst (transcribe_from_url env request st) = Inr response
              \<and> t_success response
              \<and> t_transcript response =
                  Some (py_join [32] (map (\<lambda>seg. py_strip (seg_text seg)) segments)))"
    using transcribe_from_url_success [of env request content_type bytes st name whisper segments info]
      result
    by blast
  from joined trimmed none one between upload from_url show ?thesis by (intro conjI)
qed

theorem collect_transcript_trimmed_space_joined_witness:
  "collect_transcript [\<lparr>seg_text = [32, 72, 105, 10]\<rparr>, \<lparr>seg_text = [160, 12288, 8203, 116, 9, 104, 32]\<rparr>]
     = [72, 105, 32, 8203, 116, 9, 104]
   \<and> \<not> py_isspace (hd (py_strip [32, 72, 105, 10])) \<and> \<not> py_isspace (last (py_strip [32, 72, 105, 10]))
   \<and> collect_transcript [\<lparr>seg_text = [32, 72, 105, 10]\<rparr>, \<lparr>seg_text = [160, 12288, 8203, 116, 9, 104, 32]\<rparr>]
     = collect_transcript [\<lparr>seg_text = [32, 72, 105, 10]\<rparr>] @ [32]
       @ collect_transcript [\<lparr>seg_text = [160, 12288, 8203, 116, 9, 104, 32]\<rparr>]
   \<and> (case fst (transcribe_audio
                   ((sample_env (Inr ([\<lparr>seg_text = [32, 72, 105, 10]\<rparr>,
                                       \<lparr>seg_text = [160, 12288, 8203, 116, 9, 104, 32]\<rparr>],
                                      \<lparr>info_language = ''en'', info_language_probability = 1,
                                       info_duration = 2\<rparr>)))
                      \<lparr>http_get := \<lambda>u. Inr (''audio/x-wav'', ''RIFF'')\<rparr>)
                   \<lparr>filename = Some ''talk.wav'', content = Inr ''RIFF''\<rparr> None ''base''
                   \<lparr>whisper_model = None, disk = Map.empty, loads = []\<rparr>) of
         Inl e \<Rightarrow> None
       | Inr response \<Rightarrow> t_transcript response)
     = Some [72, 105, 32, 8203, 116, 9, 104]
   \<and> (case fst (transcribe_from_url
                   ((sample_env (Inr ([\<lparr>seg_text = [32, 72, 105, 10]\<rparr>,
                                       \<lparr>seg_text = [160, 12288, 8203, 116, 9, 104, 32]\<rparr>],
                                      \<lparr>info_language = ''en'', info_language_probability = 1,
                                       info_duration = 2\<rparr>)))
                      \<lparr>http_get := \<lambda>u. Inr (''audio/x-wav'', ''RIFF'')\<rparr>)
                   \<lparr>u_url = ''http://host/talk'', u_language = None, u_model = ''base''\<rparr>
                   \<lparr>whisper_model = None, disk = Map.empty, loads = []\<rparr>) of
         Inl e \<Rightarrow> None
       | Inr response \<Rightarrow> t_transcript response)
     = Some [72, 105, 32, 8203, 116, 9, 104]"
proof -
  let ?a = "\<lparr>seg_text = [32, 72, 105, 10]\<rparr>"
  let ?b = "\<lparr>seg_text = [160, 12288, 8203, 116, 9, 104, 32]\<rparr>"
  let ?info = "\<lparr>info_language = ''en'', info_language_probability = 1, info_duration = 2\<rparr>"
  let ?env = "(sample_env (Inr ([?a, ?b], ?info)))\<lparr>http_get := \<lambda>u. Inr (''audio/x-wav'', ''RIFF'')\<rparr>"
  let ?upload = "\<lparr>filename = Some ''talk.wav'', content = Inr ''RIFF''\<rparr>"
  let ?req = "\<lparr>u_url = ''http://host/talk'', u_language = None, u_model = ''base''\<rparr>"
  let ?st = "\<lparr>whisper_model = None, disk = Map.empty, loads = []\<rparr>"
  let ?whisper = "WhisperModel ''base'' ''cpu'' ''int8''"
  let ?name = "''/app/temp/tmp8x2k.wav''"
  note inst = collect_transcript_trimmed_space_joined
      [of "[?a, ?b]" ?env ?upload ?st ?name "''RIFF''" "''base''" ?whisper None ?info ?req
          "''audio/x-wav''"]
  have stripped: "py_join [32] (map (\<lambda>seg. py_strip (seg_text seg)) [?a, ?b])
                    = [72, 105, 32, 8203, 116, 9, 104]"
    by (simp add: py_strip_def py_isspace_def)
  from inst have "collect_transcript [?a, ?b]
                    = py_join [32] (map (\<lambda>seg. py_strip (seg_text seg)) [?a, ?b])"
    by (rule conjunct1)
  with stripped have joined: "collect_transcript [?a, ?b] = [72, 105, 32, 8203, 116, 9, 104]"
    by (simp only:)
  have nonempty: "py_strip (seg_text ?a) \<noteq> []"
    by (simp add: py_strip_def py_isspace_def)
  from inst have "\<forall>seg\<in>set [?a, ?b]. (\<exists>l r. seg_text seg = l @ py_strip (seg_text seg) @ r
                \<and> list_all py_isspace l \<and> list_all py_isspace r)
         \<and> (py_strip (seg_text seg) \<noteq> [] \<longrightarrow>
              \<not> py_isspace (hd (py_strip (seg_text seg)))
              \<and> \<not> py_isspace (last (py_strip (seg_text seg))))"
    by (rule conjunct1 [OF conjunct2])
  then have "py_strip (seg_text ?a) \<noteq> [] \<longrightarrow>
      \<not> py_isspace (hd (py_strip (seg_text ?a))) \<and> \<not> py_isspace (last (py_strip (seg_text ?a)))"
    by simp
  with nonempty have ends:
    "\<not> py_isspace (hd (py_strip [32, 72, 105, 10])) \<and> \<not> py_isspace (last (py_strip [32, 72, 105, 10]))"
    by simp
  from inst have "\<forall>xs ys. [?a, ?b] = xs @ ys \<and> xs \<noteq> [] \<and> ys \<noteq> [] \<longrightarrow>
      collect_transcript [?a, ?b] = collect_transcript xs @ [32] @ collect_transcript ys"
    by (rule conjunct1 [OF conjunct2 [OF conjunct2 [OF conjunct2 [OF conjunct2]]]])
  then have "[?a, ?b] = [?a] @ [?b] \<and> [?a] \<noteq> [] \<and> [?b] \<noteq> [] \<longrightarrow>
      collect_transcript [?a, ?b] = collect_transcript [?a] @ [32] @ collect_transcript [?b]"
    by blast
  then have between:
    "collect_transcript [?a, ?b] = collect_transcript [?a] @ [32] @ collect_transcript [?b]"
    by simp
  have u1: "mktemp ?env (if truthy (filename ?upload) then splitext_ext (the (filename ?upload)) else ''.mp3'')
              ''/app/temp'' (disk ?st) = Inr ?name"
    by (simp add: sample_env_def truthy_def splitext_ext_def)
  have u2: "content ?upload = Inr ''RIFF''" by simp
  have u3: "write_fails ?env ?name ''RIFF'' = None" by (simp add: sample_env_def)
  have u4: "fst (get_whisper_model ?env (Some ''base'') ?st) = Inr ?whisper"
    by (simp add: get_whisper_model_def new_WhisperModel_def sample_env_def truthy_def Let_def)
  have u5: "recognise ?env ?whisper ?name None ((disk ?st)(?name \<mapsto> ''RIFF'')) = Inr ([?a, ?b], ?info)"
    by (simp add: sample_env_def)
  from inst have "mktemp ?env (if truthy (filename ?upload) then splitext_ext (the (filename ?upload)) else ''.mp3'')
         ''/app/temp'' (disk ?st) = Inr ?name
       \<and> content ?upload = Inr ''RIFF''
       \<and> write_fails ?env ?name ''RIFF'' = None
       \<and> fst (get_whisper_model ?env (Some ''base'') ?st) = Inr ?whisper
       \<and> recognise ?env ?whisper ?name None ((disk ?st)(?name \<mapsto> ''RIFF'')) = Inr ([?a, ?b], ?info)
       \<longrightarrow> (\<exists>response. fst (transcribe_audio ?env ?upload None ''base'' ?st) = Inr response
              \<and> t_success response
              \<and> t_transcript response =
                  Some (py_join [32] (map (\<lambda>seg. py_strip (seg_text seg)) [?a, ?b])))"
    by (rule conjunct1 [OF conjunct2 [OF conjunct2 [OF conjunct2 [OF conjunct2 [OF conjunct2]]]]])
  with u1 u2 u3 u4 u5
  have "\<exists>response. fst (transcribe_audio ?env ?upload None ''base'' ?st) = Inr response
          \<and> t_success response
          \<and> t_transcript response = Some (py_join [32] (map (\<lambda>seg. py_strip (seg_text seg)) [?a, ?b]))"
    by blast
  with stripped have upload:
    "(case fst (transcribe_audio ?env ?upload None ''base'' ?st) of
        Inl e \<Rightarrow> None | Inr response \<Rightarrow> t_transcript response)
     = Some [72, 105, 32, 8203, 116, 9, 104]"
    by auto
  have v1: "http_get ?env (u_url ?req) = Inr (''audio/x-wav'', ''RIFF'')" by simp
  have v2: "mktemp ?env
           (if sublist ''mp3'' ''audio/x-wav'' \<or> suffix ''.mp3'' (u_url ?req) then ''.mp3''
            else if sublist ''wav'' ''audio/x-wav'' \<or> suffix ''.wav'' (u_url ?req) then ''.wav''
            else if sublist ''m4a'' ''audio/x-wav'' \<or> suffix ''.m4a'' (u_url ?req) then ''.m4a''
            else ''.mp3'')
           ''/app/temp'' (disk ?st) = Inr ?name"
    by (simp add: sample_env_def sublist_code suffix_to_prefix)
  have v3: "write_fails ?env ?name ''RIFF'' = None" by (simp add: sample_env_def)
  have v4: "fst (get_whisper_model ?env (Some (u_model ?req)) ?st) = Inr ?whisper"
    by (simp add: get_whisper_model_def new_WhisperModel_def sample_env_def truthy_def Let_def)
  have v5: "recognise ?env ?whisper ?name (u_language ?req) ((disk ?st)(?name \<mapsto> ''RIFF''))
              = Inr ([?a, ?b], ?info)"
    by (simp add: sample_env_def)
  from inst have "http_get ?env (u_url ?req) = Inr (''audio/x-wav'', ''RIFF'')
       \<and> mktemp ?env
           (if sublist ''mp3'' ''audio/x-wav'' \<or> suffix ''.mp3'' (u_url ?req) then ''.mp3''
            else if sublist ''wav'' ''audio/x-wav'' \<or> suffix ''.wav'' (u_url ?req) then ''.wav''
            else if sublist ''m4a'' ''audio/x-wav'' \<or> suffix ''.m4a'' (u_url ?req) then ''.m4a''
            else ''.mp3'')
           ''/app/temp'' (disk ?st) = Inr ?name
       \<and> write_fails ?env ?name ''RIFF'' = None
       \<and> fst (get_whisper_model ?env (Some (u_model ?req)) ?st) = Inr ?whisper
       \<and> recognise ?env ?whisper ?name (u_language ?req) ((disk ?st)(?name \<mapsto> ''RIFF''))
           = Inr ([?a, ?b], ?info)
       \<longrightarrow> (\<exists>response. fst (transcribe_from_url ?env ?req ?st) = Inr response
              \<and> t_success response
              \<and> t_transcript response =
                  Some (py_join [32] (map (\<lambda>seg. py_strip (seg_text seg)) [?a, ?b])))"
    by (rule conjunct2 [OF conjunct2 [OF conjunct2 [OF conjunct2 [OF conjunct2 [OF conjunct2]]]]])
  with v1 v2 v3 v4 v5
  have "\<exists>response. fst (transcribe_from_url ?env ?req ?st) = Inr response
          \<and> t_success response
          \<and> t_transcript response = Some (py_join [32] (map (\<lambda>seg. py_strip (seg_text seg)) [?a, ?b]))"
    by blast
  with stripped have from_url:
    "(case fst (transcribe_from_url ?env ?req ?st) of
        Inl e \<Rightarrow> None | Inr response \<Rightarrow> t_transcript response)
     = Some [72, 105, 32, 8203, 116, 9, 104]"
    by auto
  from joined ends between upload from_url show ?thesis by (intro conjI) simp_all
qed

subsection \<open>The model instances\<close>

text \<open>
  C7 does not hold. While the global \<open>whisper_model\<close> is still \<^verbatim>\<open>None\<close>, the test
  that guards the separate instance is false, whatever size is asked for, and the
  instance of the size asked for is stored in the global. Below, the default size is
  \<^verbatim>\<open>base\<close>; the first request of the process asks for \<^verbatim>\<open>large\<close>, and the request
  for \<^verbatim>\<open>base\<close> that follows is served the instance of size \<^verbatim>\<open>large\<close>.
\<close>

theorem get_whisper_model_first_request_sets_default:
  "fst (get_whisper_model (sample_env (Inl (Exception []))) (Some ''base'')
         (snd (get_whisper_model (sample_env (Inl (Exception []))) (Some ''large'')
                \<lparr>whisper_model = None, disk = Map.empty, loads = []\<rparr>)))
   = Inr (WhisperModel ''large'' ''cpu'' ''int8'')"
  by (simp add: get_whisper_model_def new_WhisperModel_def sample_env_def truthy_def Let_def)

subsection \<open>The upload endpoint\<close>




text \<open>
  C9. For every upload request in which the temporary file \<open>name\<close> is created, whatever
  happens next (the read, the write, the loading of the model or the recognition raises,
  or the transcription succeeds): when the request completes, no file exists at \<open>name\<close>,
  and every other path holds what it held before the request.
\<close>

theorem transcribe_audio_removes_temp_file:
  assumes "mktemp env (if truthy (filename file) then splitext_ext (the (filename file)) else ''.mp3'')
             ''/app/temp'' (disk st) = Inr name"
  shows "disk (snd (transcribe_audio env file lang model st)) = (disk st)(name := None)"
proof -
  obtain r tmp st' where tb: "transcribe_audio_try env file lang model st = (r, tmp, st')"
    by (cases "transcribe_audio_try env file lang model st") auto
  have "tmp = Some name \<and> (\<exists>c. disk st' = (disk st)(name \<mapsto> c))"
    using tb assms
    by (auto simp: transcribe_audio_try_def Let_def
        split: sum.splits option.splits prod.splits dest!: get_whisper_model_disk)
  then show ?thesis
    using tb by (auto simp: transcribe_audio_def finally_unlink_def)
qed

theorem transcribe_audio_removes_temp_file_witness:
  "mktemp (sample_env (Inl (Exception ''boom''))) ''.wav'' ''/app/temp''
       [''/app/temp/keep.mp3'' \<mapsto> ''ID3''] = Inr ''/app/temp/tmp8x2k.wav''
   \<and> disk (snd (transcribe_audio (sample_env (Inl (Exception ''boom'')))
                  \<lparr>filename = Some ''talk.wav'', content = Inr ''RIFF''\<rparr> None ''base''
                  \<lparr>whisper_model = None, disk = [''/app/temp/keep.mp3'' \<mapsto> ''ID3''], loads = []\<rparr>))
       ''/app/temp/tmp8x2k.wav'' = None
   \<and> disk (snd (transcribe_audio (sample_env (Inl (Exception ''boom'')))
                  \<lparr>filename = Some ''talk.wav'', content = Inr ''RIFF''\<rparr> None ''base''
                  \<lparr>whisper_model = None, disk = [''/app/temp/keep.mp3'' \<mapsto> ''ID3''], loads = []\<rparr>))
       ''/app/temp/keep.mp3'' = Some ''ID3''"
proof -
  let ?env = "sample_env (Inl (Exception ''boom''))"
  let ?file = "\<lparr>filename = Some ''talk.wav'', content = Inr ''RIFF''\<rparr>"
  let ?st = "\<lparr>whisper_model = None, disk = [''/app/temp/keep.mp3'' \<mapsto> ''ID3''], loads = []\<rparr>"
  have created: "mktemp ?env (if truthy (filename ?file) then splitext_ext (the (filename ?file)) else ''.mp3'')
                   ''/app/temp'' (disk ?st) = Inr ''/app/temp/tmp8x2k.wav''"
    by (simp add: sample_env_def truthy_def splitext_ext_def)
  have direct: "mktemp ?env ''.wav'' ''/app/temp'' [''/app/temp/keep.mp3'' \<mapsto> ''ID3'']
                  = Inr ''/app/temp/tmp8x2k.wav''"
    by (simp add: sample_env_def)
  from transcribe_audio_removes_temp_file [OF created, of None "''base''"] direct
  show ?thesis by simp
qed

end
